theory Spec2Isabelle
  imports Complex_Main "HOL-Library.AList"
begin

section \<open>Scope of the embedding\<close>

text \<open>
  The theory embeds the route handlers of the schema, collection, universal and database
  routes and the schema model, as far as the properties below need them.  A handler is a
  function of the state it reads (the schema registry, the model caches, the database)
  that returns the state it leaves and either an error or its result.

  The database and the object-document mapper are collaborators.  Their calls are taken
  to return: a fault of the database (a lost connection, a violated secondary index) and
  the mapper's refusal to compile a second schema under a model name it holds already
  are outside the embedding.  Every handler answers such an exception from its
  \<^verbatim>\<open>catch\<close> block, with status 500.  What is embedded of the mapper is what the
  declarations of the schema model say: setters, required paths, allowed values, unique
  indexes and timestamps.

  Request bodies and query strings have the types of their wire shape; a value of
  another JavaScript type in their place is outside the embedding.
\<close>

section \<open>JavaScript strings\<close>

text \<open>
  Strings are \<^typ>\<open>string\<close>; the embedding covers ASCII text (the case mapping and the
  white space of code points beyond ASCII are outside it).
\<close>

definition startsWith :: "string \<Rightarrow> string \<Rightarrow> bool" where
  "startsWith s p \<longleftrightarrow> take (length p) s = p"

definition substring :: "string \<Rightarrow> nat \<Rightarrow> string" where
  "substring s n = drop n s"

definition str_includes :: "string \<Rightarrow> char \<Rightarrow> bool" where
  "str_includes s c \<longleftrightarrow> c \<in> set s"

text \<open>\<^verbatim>\<open>s.split(',')\<close>: an empty string gives one empty piece.\<close>

fun split :: "string \<Rightarrow> char \<Rightarrow> string list" where
  "split [] c = [[]]"
| "split (x # xs) c =
     (if x = c then [] # split xs c
      else (case split xs c of [] \<Rightarrow> [[x]] | w # ws \<Rightarrow> (x # w) # ws))"

definition lower_char :: "char \<Rightarrow> char" where
  "lower_char c =
     (case map_of (zip ''ABCDEFGHIJKLMNOPQRSTUVWXYZ'' ''abcdefghijklmnopqrstuvwxyz'') c of
        None \<Rightarrow> c | Some d \<Rightarrow> d)"

definition toLowerCase :: "string \<Rightarrow> string" where
  "toLowerCase s = map lower_char s"

definition isWhiteSpace :: "char \<Rightarrow> bool" where
  "isWhiteSpace c \<longleftrightarrow> c \<in> set [CHR '' '', CHR 0x09, CHR 0x0A, CHR 0x0B, CHR 0x0C, CHR 0x0D]"

definition trimStart :: "string \<Rightarrow> string" where
  "trimStart s = dropWhile isWhiteSpace s"

definition trim :: "string \<Rightarrow> string" where
  "trim s = rev (dropWhile isWhiteSpace (rev (dropWhile isWhiteSpace s)))"

text \<open>A JavaScript value is truthy unless it is (for a string) the empty string.\<close>

definition truthy_opt :: "string option \<Rightarrow> bool" where
  "truthy_opt v \<longleftrightarrow> (case v of None \<Rightarrow> False | Some s \<Rightarrow> s \<noteq> [])"

section \<open>Errors and JSON values\<close>

text \<open>
  The four outcomes of the error taxonomy, as the handlers send them:
  status 400 (\<open>ValidationError\<close>), 409 (\<open>ConflictError\<close>), 404 (\<open>NotFoundError\<close>) and
  500 from a \<^verbatim>\<open>catch\<close> block (\<open>StoreError\<close>).
\<close>

datatype error = ValidationError | ConflictError | NotFoundError | StoreError

datatype jsvalue =
    JNull
  | JBool bool
  | JNum rat
  | JStr string
  | JArr "jsvalue list"
  | JObj "(string \<times> jsvalue) list"

section \<open>Integers in query strings\<close>

definition isDigit :: "char \<Rightarrow> bool" where
  "isDigit c \<longleftrightarrow> c \<in> set ''0123456789''"

definition digitVal :: "char \<Rightarrow> nat" where
  "digitVal c =
     (case map_of (zip ''0123456789'' [0, 1, 2, 3, 4, 5, 6, 7, 8, 9]) c of
        None \<Rightarrow> 0 | Some d \<Rightarrow> d)"

definition isHexDigit :: "char \<Rightarrow> bool" where
  "isHexDigit c \<longleftrightarrow> c \<in> set ''0123456789abcdefABCDEF''"

definition hexVal :: "char \<Rightarrow> nat" where
  "hexVal c =
     (case map_of (zip ''0123456789abcdefABCDEF''
              [0, 1, 2, 3, 4, 5, 6, 7, 8, 9, 10, 11, 12, 13, 14, 15, 10, 11, 12, 13, 14, 15]) c of
        None \<Rightarrow> 0 | Some d \<Rightarrow> d)"

definition digitsValue :: "nat \<Rightarrow> (char \<Rightarrow> nat) \<Rightarrow> string \<Rightarrow> nat" where
  "digitsValue radix dv ds = foldl (\<lambda>acc c. acc * radix + dv c) 0 ds"

text \<open>
  \<^verbatim>\<open>parseInt(s)\<close> with no radix: leading white space is skipped, a sign is read, a
  \<^verbatim>\<open>0x\<close> prefix selects radix 16, and the longest run of digits is the value;
  no digit at all gives \<^verbatim>\<open>NaN\<close>, here \<open>None\<close>.  \<^verbatim>\<open>parseInt(undefined)\<close> reads the
  text \<^verbatim>\<open>undefined\<close>, which has no digit.  Integers are exact (a double holds them
  exactly up to \<open>2^53\<close>).
\<close>

definition parseInt_str :: "string \<Rightarrow> int option" where
  "parseInt_str s =
     (let t = trimStart s;
          (sg, u) = (case t of
                         c # r \<Rightarrow> if c = CHR ''-'' then (- 1, r)
                                  else if c = CHR ''+'' then (1, r) else (1, t)
                       | [] \<Rightarrow> (1, t));
          (radix, dv, isD, w) =
             (if startsWith u ''0x'' \<or> startsWith u ''0X''
              then (16, hexVal, isHexDigit, drop 2 u)
              else (10, digitVal, isDigit, u));
          z = takeWhile isD w
      in if z = [] then None else Some (sg * int (digitsValue radix dv z)))"

definition parseInt :: "string option \<Rightarrow> int option" where
  "parseInt v = (case v of None \<Rightarrow> None | Some s \<Rightarrow> parseInt_str s)"

text \<open>\<^verbatim>\<open>parseInt(x) || d\<close>: \<^verbatim>\<open>NaN\<close> and \<open>0\<close> are falsy.\<close>

definition orDefault :: "int option \<Rightarrow> int \<Rightarrow> int" where
  "orDefault v d = (case v of None \<Rightarrow> d | Some n \<Rightarrow> if n = 0 then d else n)"





text \<open>\<^verbatim>\<open>isMongoId\<close>: exactly 24 hexadecimal digits.\<close>

definition isMongoId :: "string \<Rightarrow> bool" where
  "isMongoId s \<longleftrightarrow> length s = 24 \<and> list_all isHexDigit s"

text \<open>\<^verbatim>\<open>.optional()\<close> skips a validator when the parameter is absent.\<close>

definition optional :: "'a option \<Rightarrow> ('a \<Rightarrow> bool) \<Rightarrow> bool" where
  "optional v chk = (case v of None \<Rightarrow> True | Some x \<Rightarrow> chk x)"

section \<open>The query translator\<close>

text \<open>
  The numbers of a filter are doubles.  What \<^verbatim>\<open>parseFloat\<close>, the coercion of a string to
  a number and \<^verbatim>\<open>isNaN\<close> compute is left open: the translator is a function of them.
\<close>

record 'n js_numbers =
  parseFloat :: "string \<Rightarrow> 'n"
  toNumber :: "string \<Rightarrow> 'n"
  isNaN :: "'n \<Rightarrow> bool"

datatype 'n predicate =
    Gt 'n
  | Lt 'n
  | Gte 'n
  | Lte 'n
  | Ne string
  | Regex string string
  | In "string list"
  | EqBool bool
  | EqNum 'n
  | EqStr string

text \<open>The chain of tests on one filter value, in the order of the source.\<close>

definition translate_value :: "'n js_numbers \<Rightarrow> string \<Rightarrow> 'n predicate" where
  "translate_value J v =
     (if startsWith v ''>'' then Gt (parseFloat J (substring v 1))
      else if startsWith v ''<'' then Lt (parseFloat J (substring v 1))
      else if startsWith v ''>='' then Gte (parseFloat J (substring v 2))
      else if startsWith v ''<='' then Lte (parseFloat J (substring v 2))
      else if startsWith v ''!='' then Ne (substring v 2)
      else if startsWith v ''~'' then Regex (substring v 1) ''i''
      else if str_includes v CHR '','' then In (split v CHR '','')
      else if v = ''true'' then EqBool True
      else if v = ''false'' then EqBool False
      else if \<not> isNaN J (toNumber J v) \<and> \<not> isNaN J (parseFloat J v) then EqNum (parseFloat J v)
      else EqStr v)"

definition reserved :: "string list" where
  "reserved = [''page'', ''limit'', ''sort'', ''fields'']"

type_synonym params = "(string \<times> string) list"

type_synonym 'n mongo_query = "(string \<times> 'n predicate) list"

text \<open>
  The request's query string is an object of string values; \<^verbatim>\<open>query[key] = ...\<close> is
  \<^const>\<open>AList.update\<close> (a new key goes last, a known key keeps its place).
\<close>

definition build_query :: "'n js_numbers \<Rightarrow> params \<Rightarrow> 'n mongo_query" where
  "build_query J q =
     foldl (\<lambda>acc (k, v). if k \<in> set reserved then acc
                           else AList.update k (translate_value J v) acc) [] q"




definition page_of :: "params \<Rightarrow> int" where
  "page_of q = orDefault (parseInt (map_of q ''page'')) 1"

definition limit_of :: "params \<Rightarrow> int" where
  "limit_of q = orDefault (parseInt (map_of q ''limit'')) 10"

definition skip_of :: "params \<Rightarrow> int" where
  "skip_of q = (page_of q - 1) * limit_of q"

text \<open>\<^verbatim>\<open>Math.ceil(total / limit)\<close>.\<close>

definition pages_of :: "nat \<Rightarrow> int \<Rightarrow> int" where
  "pages_of n limit = \<lceil>rat_of_nat n / rat_of_int limit\<rceil>"

section \<open>Schema definitions\<close>

record field_def =
  fd_name :: string
  fd_type :: string
  fd_required :: bool
  fd_unique :: bool
  fd_index :: bool
  fd_default :: "jsvalue option"
  fd_enum :: "string list"
  fd_min :: "rat option"
  fd_max :: "rat option"
  fd_minLength :: "rat option"
  fd_maxLength :: "rat option"
  fd_pattern :: "string option"
  fd_ref :: "string option"
  fd_description :: "string option"

record index_def =
  ix_fields :: jsvalue
  ix_unique :: "bool option"
  ix_sparse :: "bool option"
  ix_background :: "bool option"

text \<open>Times are milliseconds; identifiers are the 24 hexadecimal digits of an ObjectId.\<close>

record schema_def =
  sd_id :: string
  sd_collectionName :: string
  sd_displayName :: string
  sd_description :: "string option"
  sd_fields :: "field_def list"
  sd_indexes :: "index_def list"
  sd_validationRules :: "jsvalue option"
  sd_isActive :: bool
  sd_createdAt :: nat
  sd_updatedAt :: nat

definition field_types :: "string list" where
  "field_types = [''String'', ''Number'', ''Boolean'', ''Date'', ''ObjectId'', ''Array'',
                  ''Object'', ''Mixed'']"

subsection \<open>Compiling a definition\<close>

datatype mtype = TString | TNumber | TBoolean | TDate | TObjectId | TArrayOfMixed | TMixed

record field_config =
  fc_type :: mtype
  fc_required :: bool
  fc_unique :: bool
  fc_index :: bool
  fc_default :: "jsvalue option"
  fc_enum :: "string list option"
  fc_min :: "rat option"
  fc_max :: "rat option"
  fc_minlength :: "rat option"
  fc_maxlength :: "rat option"
  fc_match :: "string option"
  fc_ref :: "string option"

record mongoose_schema =
  ms_paths :: "(string \<times> field_config) list"
  ms_collection :: string
  ms_strict :: bool
  ms_timestamps :: bool

definition field_type_of :: "string \<Rightarrow> mtype" where
  "field_type_of t =
     (if t = ''String'' then TString
      else if t = ''Number'' then TNumber
      else if t = ''Boolean'' then TBoolean
      else if t = ''Date'' then TDate
      else if t = ''ObjectId'' then TObjectId
      else if t = ''Array'' then TArrayOfMixed
      else if t = ''Object'' then TMixed
      else if t = ''Mixed'' then TMixed
      else TMixed)"

definition field_config_of :: "field_def \<Rightarrow> field_config" where
  "field_config_of f =
     \<lparr> fc_type = field_type_of (fd_type f),
       fc_required = fd_required f,
       fc_unique = fd_unique f,
       fc_index = fd_index f,
       fc_default = fd_default f,
       fc_enum = (if fd_enum f \<noteq> [] then Some (fd_enum f) else None),
       fc_min = fd_min f,
       fc_max = fd_max f,
       fc_minlength = fd_minLength f,
       fc_maxlength = fd_maxLength f,
       fc_match = (if truthy_opt (fd_pattern f) then fd_pattern f else None),
       fc_ref = (if truthy_opt (fd_ref f) then fd_ref f else None) \<rparr>"

definition generateMongooseSchema :: "schema_def \<Rightarrow> mongoose_schema" where
  "generateMongooseSchema d =
     \<lparr> ms_paths = foldl (\<lambda>acc f. AList.update (fd_name f) (field_config_of f) acc) [] (sd_fields d),
       ms_collection = sd_collectionName d,
       ms_strict = True,
       ms_timestamps = True \<rparr>"

text \<open>The schema of a collection without a definition: no path, \<^verbatim>\<open>strict: false\<close>.\<close>

definition dynamicSchema :: "string \<Rightarrow> mongoose_schema" where
  "dynamicSchema name =
     \<lparr> ms_paths = [], ms_collection = name, ms_strict = False, ms_timestamps = True \<rparr>"

record compiled_model =
  cm_name :: string
  cm_schema :: mongoose_schema

definition mongoose_model :: "string \<Rightarrow> mongoose_schema \<Rightarrow> compiled_model" where
  "mongoose_model name sch = \<lparr> cm_name = name, cm_schema = sch \<rparr>"

section \<open>The schema registry\<close>

type_synonym registry = "schema_def list"

text \<open>
  The path \<^verbatim>\<open>collectionName\<close> is declared \<^verbatim>\<open>lowercase: true, trim: true\<close>,
  \<^verbatim>\<open>displayName\<close>, \<^verbatim>\<open>description\<close> and a field's \<^verbatim>\<open>name\<close> are declared
  \<^verbatim>\<open>trim: true\<close>.  These setters run when a value is assigned to the path and when a
  filter on the path is cast.  An identifier is cast to an ObjectId, whose hexadecimal
  text is in lower case.
\<close>

definition cast_collectionName :: "string \<Rightarrow> string" where
  "cast_collectionName s = trim (toLowerCase s)"

definition castObjectId :: "string \<Rightarrow> string" where
  "castObjectId i = toLowerCase i"

definition findById :: "registry \<Rightarrow> string \<Rightarrow> schema_def option" where
  "findById reg i = find (\<lambda>d. sd_id d = castObjectId i) reg"

text \<open>\<^verbatim>\<open>Schema.findOne({ collectionName: name })\<close>: no condition on \<^verbatim>\<open>isActive\<close>.\<close>

definition findOne_collectionName :: "registry \<Rightarrow> string \<Rightarrow> schema_def option" where
  "findOne_collectionName reg name =
     find (\<lambda>d. sd_collectionName d = cast_collectionName name) reg"

definition getByCollectionName :: "registry \<Rightarrow> string \<Rightarrow> schema_def option" where
  "getByCollectionName reg name =
     find (\<lambda>d. sd_collectionName d = cast_collectionName (toLowerCase name) \<and> sd_isActive d) reg"

definition getActiveSchemas :: "registry \<Rightarrow> schema_def list" where
  "getActiveSchemas reg = filter sd_isActive reg"

subsection \<open>Saving a definition\<close>

text \<open>
  \<^verbatim>\<open>save()\<close> validates the document against the declared paths: \<^verbatim>\<open>collectionName\<close>,
  \<^verbatim>\<open>displayName\<close> and every field's \<^verbatim>\<open>name\<close> are required (an empty string fails),
  every field's \<^verbatim>\<open>type\<close> is one of the eight names.  A new document must also pass the
  unique indexes on \<^verbatim>\<open>_id\<close> and \<^verbatim>\<open>collectionName\<close>.  Either failure is thrown and
  reaches the \<^verbatim>\<open>catch\<close> block of the handler.
\<close>

definition valid_field :: "field_def \<Rightarrow> bool" where
  "valid_field f \<longleftrightarrow> fd_name f \<noteq> [] \<and> fd_type f \<in> set field_types"

definition valid_def :: "schema_def \<Rightarrow> bool" where
  "valid_def d \<longleftrightarrow>
     sd_collectionName d \<noteq> [] \<and> sd_displayName d \<noteq> [] \<and> list_all valid_field (sd_fields d)"

definition cast_field :: "field_def \<Rightarrow> field_def" where
  "cast_field f = f\<lparr> fd_name := trim (fd_name f) \<rparr>"

definition save_new :: "registry \<Rightarrow> schema_def \<Rightarrow> error + registry" where
  "save_new reg d =
     (if \<not> valid_def d then Inl StoreError
      else if list_ex (\<lambda>x. sd_id x = sd_id d \<or> sd_collectionName x = sd_collectionName d) reg
      then Inl StoreError
      else Inr (reg @ [d]))"

fun replace_by_id :: "registry \<Rightarrow> schema_def \<Rightarrow> registry" where
  "replace_by_id [] d = []"
| "replace_by_id (x # xs) d = (if sd_id x = sd_id d then d # xs else x # replace_by_id xs d)"

text \<open>Saving a loaded document whose \<^verbatim>\<open>_id\<close> and \<^verbatim>\<open>collectionName\<close> are as loaded.\<close>

definition save_existing :: "registry \<Rightarrow> schema_def \<Rightarrow> error + registry" where
  "save_existing reg d = (if valid_def d then Inr (replace_by_id reg d) else Inl StoreError)"

subsection \<open>POST /schemas\<close>

record create_body =
  cb_collectionName :: "string option"
  cb_displayName :: "string option"
  cb_description :: "string option"
  cb_fields :: "field_def list option"
  cb_indexes :: "index_def list option"
  cb_validationRules :: "jsvalue option"
  cb_isActive :: "bool option"

definition notEmpty :: "string option \<Rightarrow> bool" where
  "notEmpty v \<longleftrightarrow> (case v of None \<Rightarrow> False | Some s \<Rightarrow> s \<noteq> [])"

definition create_validators :: "create_body \<Rightarrow> bool" where
  "create_validators b \<longleftrightarrow>
     notEmpty (cb_collectionName b) \<and>
     notEmpty (cb_displayName b) \<and>
     (case cb_fields b of
        None \<Rightarrow> False
      | Some fs \<Rightarrow> list_all (\<lambda>f. fd_name f \<noteq> []) fs \<and> list_all (\<lambda>f. fd_type f \<in> set field_types) fs)"

text \<open>\<^verbatim>\<open>new Schema({...req.body, collectionName: name})\<close>, created at time \<open>now\<close> with
  the identifier \<open>oid\<close>.  After the save the handler compiles the definition and hands
  it to the mapper, which has no effect on the registry.\<close>

definition new_Schema :: "create_body \<Rightarrow> string \<Rightarrow> string \<Rightarrow> nat \<Rightarrow> schema_def" where
  "new_Schema b name oid now =
     \<lparr> sd_id = oid,
       sd_collectionName = cast_collectionName name,
       sd_displayName = trim (the (cb_displayName b)),
       sd_description = map_option trim (cb_description b),
       sd_fields = map cast_field (the (cb_fields b)),
       sd_indexes = (case cb_indexes b of None \<Rightarrow> [] | Some xs \<Rightarrow> xs),
       sd_validationRules = cb_validationRules b,
       sd_isActive = (case cb_isActive b of None \<Rightarrow> True | Some a \<Rightarrow> a),
       sd_createdAt = now,
       sd_updatedAt = now \<rparr>"

definition create :: "registry \<Rightarrow> create_body \<Rightarrow> string \<Rightarrow> nat \<Rightarrow> error + registry \<times> schema_def" where
  "create reg b oid now =
     (if \<not> create_validators b then Inl ValidationError
      else
        (case findOne_collectionName reg (toLowerCase (the (cb_collectionName b))) of
           Some existingSchema \<Rightarrow> Inl ConflictError
         | None \<Rightarrow>
             (let d = new_Schema b (toLowerCase (the (cb_collectionName b))) oid now
              in (case save_new reg d of
                    Inl e \<Rightarrow> Inl e
                  | Inr reg' \<Rightarrow> Inr (reg', d)))))"

subsection \<open>PUT /schemas/:id\<close>

text \<open>The body: the keys of a definition's wire shape, \<^verbatim>\<open>isActive\<close> and
  \<^verbatim>\<open>updatedAt\<close>, each present or absent.\<close>

record update_body =
  ub_collectionName :: "string option"
  ub_displayName :: "string option"
  ub_description :: "string option"
  ub_fields :: "field_def list option"
  ub_indexes :: "index_def list option"
  ub_validationRules :: "jsvalue option"
  ub_isActive :: "bool option"
  ub_updatedAt :: "nat option"

definition update_validators :: "string \<Rightarrow> update_body \<Rightarrow> bool" where
  "update_validators i b \<longleftrightarrow> isMongoId i \<and> optional (ub_displayName b) (\<lambda>v. v \<noteq> [])"

text \<open>The loop over the keys of the body: every key but \<^verbatim>\<open>collectionName\<close> is assigned.\<close>

definition assign_keys :: "schema_def \<Rightarrow> update_body \<Rightarrow> schema_def" where
  "assign_keys d b =
     d\<lparr> sd_displayName := (case ub_displayName b of None \<Rightarrow> sd_displayName d | Some v \<Rightarrow> trim v),
        sd_description := (case ub_description b of None \<Rightarrow> sd_description d | Some v \<Rightarrow> Some (trim v)),
        sd_fields := (case ub_fields b of None \<Rightarrow> sd_fields d | Some v \<Rightarrow> map cast_field v),
        sd_indexes := (case ub_indexes b of None \<Rightarrow> sd_indexes d | Some v \<Rightarrow> v),
        sd_validationRules := (case ub_validationRules b of None \<Rightarrow> sd_validationRules d | Some v \<Rightarrow> Some v),
        sd_isActive := (case ub_isActive b of None \<Rightarrow> sd_isActive d | Some v \<Rightarrow> v),
        sd_updatedAt := (case ub_updatedAt b of None \<Rightarrow> sd_updatedAt d | Some v \<Rightarrow> v) \<rparr>"

definition update :: "registry \<Rightarrow> string \<Rightarrow> update_body \<Rightarrow> nat \<Rightarrow> error + registry \<times> schema_def" where
  "update reg i b now =
     (if \<not> update_validators i b then Inl ValidationError
      else
        (case findById reg i of
           None \<Rightarrow> Inl NotFoundError
         | Some d \<Rightarrow>
             (let d' = (assign_keys d b)\<lparr> sd_updatedAt := now \<rparr>
              in (case save_existing reg d' of
                    Inl e \<Rightarrow> Inl e
                  | Inr reg' \<Rightarrow> Inr (reg', d')))))"

subsection \<open>DELETE /schemas/:id\<close>

text \<open>With \<^verbatim>\<open>timestamps: true\<close> a save that changes the document also sets
  \<^verbatim>\<open>updatedAt\<close>.\<close>

definition softDelete :: "registry \<Rightarrow> string \<Rightarrow> nat \<Rightarrow> error + registry" where
  "softDelete reg i now =
     (if \<not> isMongoId i then Inl ValidationError
      else
        (case findById reg i of
           None \<Rightarrow> Inl NotFoundError
         | Some d \<Rightarrow>
             save_existing reg
               (if sd_isActive d then d\<lparr> sd_isActive := False, sd_updatedAt := now \<rparr> else d)))"

section \<open>The model caches\<close>

type_synonym model_cache = "string \<rightharpoonup> compiled_model"

text \<open>The cache of the universal routes.\<close>

definition getDynamicModel :: "model_cache \<Rightarrow> string \<Rightarrow> compiled_model \<times> model_cache" where
  "getDynamicModel cache name =
     (case cache name of
        Some m \<Rightarrow> (m, cache)
      | None \<Rightarrow>
          (let m = mongoose_model name (dynamicSchema name)
           in (m, cache(name \<mapsto> m))))"

text \<open>The cache of the collection routes.\<close>

definition getModelFromSchema ::
    "model_cache \<Rightarrow> registry \<Rightarrow> string \<Rightarrow> compiled_model \<times> model_cache" where
  "getModelFromSchema cache reg name =
     (case cache name of
        Some m \<Rightarrow> (m, cache)
      | None \<Rightarrow>
          (case getByCollectionName reg name of
             Some schemaDef \<Rightarrow>
               (let m = mongoose_model name (generateMongooseSchema schemaDef)
                in (m, cache(name \<mapsto> m)))
           | None \<Rightarrow>
               (let m = mongoose_model name (dynamicSchema name)
                in (m, cache(name \<mapsto> m)))))"

subsection \<open>The process state under schema and document requests\<close>

record system =
  sys_registry :: registry
  universalCache :: model_cache
  collectionsCache :: model_cache

text \<open>
  A schema request changes the registry alone.  A document request of the universal
  routes obtains its model with \<^const>\<open>getDynamicModel\<close>, one of the collection routes
  with \<^const>\<open>getModelFromSchema\<close>.
\<close>

datatype request =
    SchemaCreate create_body string nat
  | SchemaUpdate string update_body nat
  | SchemaSoftDelete string nat
  | UniversalDocuments string
  | CollectionDocuments string

fun step :: "system \<Rightarrow> request \<Rightarrow> system" where
  "step s (SchemaCreate b oid now) =
     (case create (sys_registry s) b oid now of
        Inl e \<Rightarrow> s | Inr (reg', d) \<Rightarrow> s\<lparr> sys_registry := reg' \<rparr>)"
| "step s (SchemaUpdate i b now) =
     (case update (sys_registry s) i b now of
        Inl e \<Rightarrow> s | Inr (reg', d) \<Rightarrow> s\<lparr> sys_registry := reg' \<rparr>)"
| "step s (SchemaSoftDelete i now) =
     (case softDelete (sys_registry s) i now of
        Inl e \<Rightarrow> s | Inr reg' \<Rightarrow> s\<lparr> sys_registry := reg' \<rparr>)"
| "step s (UniversalDocuments name) =
     s\<lparr> universalCache := snd (getDynamicModel (universalCache s) name) \<rparr>"
| "step s (CollectionDocuments name) =
     s\<lparr> collectionsCache := snd (getModelFromSchema (collectionsCache s) (sys_registry s) name) \<rparr>"

definition run :: "system \<Rightarrow> request list \<Rightarrow> system" where
  "run s rs = foldl step s rs"

section \<open>The document store\<close>

text \<open>
  A document is its identifier and its content; the database assigns every collection
  name a collection, whose documents are keyed by identifier (the unique index on
  \<^verbatim>\<open>_id\<close>) and whose secondary indexes are pairs of a key and its options.
\<close>

type_synonym document = "string \<times> jsvalue"

record collection =
  col_docs :: "string \<rightharpoonup> jsvalue"
  col_indexes :: "(jsvalue \<times> jsvalue) list"

type_synonym database = "string \<Rightarrow> collection"


subsection \<open>GET /:collection/:id and DELETE /:collection/:id of the universal routes\<close>

definition get_document ::
    "model_cache \<Rightarrow> database \<Rightarrow> string \<Rightarrow> string \<Rightarrow> model_cache \<times> (error + jsvalue)" where
  "get_document cache db coll i =
     (if \<not> isMongoId i then (cache, Inl ValidationError)
      else
        (let (model, cache') = getDynamicModel cache coll
         in (case col_docs (db (ms_collection (cm_schema model))) (castObjectId i) of
               None \<Rightarrow> (cache', Inl NotFoundError)
             | Some doc \<Rightarrow> (cache', Inr doc))))"


subsection \<open>GET /:collection of the universal routes\<close>




section \<open>The route table of the universal routes\<close>

datatype http_method = GET | POST | PUT | PATCH | DELETE

datatype segment = Lit string | Param string

datatype handler =
    ListCollections
  | ListDocuments
  | GetDocument
  | CreateDocument
  | ReplaceDocument
  | PatchDocument
  | DeleteDocument
  | BulkDocuments
  | CollectionStats

text \<open>The routes in the order of their registration.\<close>

definition universal_routes :: "(http_method \<times> segment list \<times> handler) list" where
  "universal_routes =
     [(GET, [Lit ''collections''], ListCollections),
      (GET, [Param ''collection''], ListDocuments),
      (GET, [Param ''collection'', Param ''id''], GetDocument),
      (POST, [Param ''collection''], CreateDocument),
      (PUT, [Param ''collection'', Param ''id''], ReplaceDocument),
      (PATCH, [Param ''collection'', Param ''id''], PatchDocument),
      (DELETE, [Param ''collection'', Param ''id''], DeleteDocument),
      (POST, [Param ''collection'', Lit ''bulk''], BulkDocuments),
      (GET, [Param ''collection'', Lit ''stats''], CollectionStats)]"

text \<open>
  A path is split at its slashes; one trailing slash is allowed.  A parameter matches a
  piece that is not empty, a literal matches without regard to case.
\<close>

definition pieces_of :: "string \<Rightarrow> string list option" where
  "pieces_of path =
     (case split path CHR ''/'' of
        [] \<Rightarrow> None
      | p # ps \<Rightarrow>
          if p \<noteq> [] then None
          else if ps \<noteq> [] \<and> last ps = [] then Some (butlast ps)
          else Some ps)"

fun match_path :: "segment list \<Rightarrow> string list \<Rightarrow> (string \<times> string) list option" where
  "match_path [] [] = Some []"
| "match_path (Lit l # segs) (p # ps) =
     (if toLowerCase p = toLowerCase l then match_path segs ps else None)"
| "match_path (Param x # segs) (p # ps) =
     (if p \<noteq> [] then map_option (\<lambda>bs. (x, p) # bs) (match_path segs ps) else None)"
| "match_path segs ps = None"

text \<open>The first route that matches takes the request; no handler of these routes passes
  a request on once its validators have run.\<close>

fun dispatch ::
    "(http_method \<times> segment list \<times> handler) list \<Rightarrow> http_method \<Rightarrow> string list \<Rightarrow>
     (handler \<times> (string \<times> string) list) option" where
  "dispatch [] m ps = None"
| "dispatch ((m', segs, h) # rs) m ps =
     (if m' = m then
        (case match_path segs ps of
           Some bs \<Rightarrow> Some (h, bs)
         | None \<Rightarrow> dispatch rs m ps)
      else dispatch rs m ps)"

definition route :: "http_method \<Rightarrow> string \<Rightarrow> (handler \<times> (string \<times> string) list) option" where
  "route m path =
     (case pieces_of path of None \<Rightarrow> None | Some ps \<Rightarrow> dispatch universal_routes m ps)"

text \<open>A GET request to the universal routes, as far as the handlers above answer it.\<close>

datatype get_response = Answered "error + jsvalue" | Other handler | NoRoute

definition get_request :: "model_cache \<Rightarrow> database \<Rightarrow> string \<Rightarrow> get_response" where
  "get_request cache db path =
     (case route GET path of
        None \<Rightarrow> NoRoute
      | Some (h, bs) \<Rightarrow>
          if h = GetDocument
          then Answered (snd (get_document cache db (the (map_of bs ''collection'')) (the (map_of bs ''id''))))
          else Other h)"

section \<open>Restoring a backup\<close>

record backup_index =
  bi_name :: "string option"
  bi_key :: "jsvalue option"
  bi_options :: "jsvalue option"

record backup_collection =
  bc_indexes :: "backup_index list option"
  bc_data :: "document list option"


record restore_result =
  rr_collection :: string
  rr_documentsRestored :: nat
  rr_indexesRestored :: nat

definition deleteMany_all :: "collection \<Rightarrow> collection" where
  "deleteMany_all c = c\<lparr> col_docs := Map.empty \<rparr>"

text \<open>
  \<^verbatim>\<open>createIndex\<close> inside \<^verbatim>\<open>try\<close>/\<^verbatim>\<open>catch\<close>: a key that is missing, or that an index
  of the collection has already, leaves the collection as it is.
\<close>

definition createIndex_tolerant :: "collection \<Rightarrow> jsvalue option \<Rightarrow> jsvalue \<Rightarrow> collection" where
  "createIndex_tolerant c key opts =
     (case key of
        None \<Rightarrow> c
      | Some k \<Rightarrow>
          if k \<in> fst ` set (col_indexes c) then c
          else c\<lparr> col_indexes := col_indexes c @ [(k, opts)] \<rparr>)"

definition restore_indexes :: "collection \<Rightarrow> backup_index list \<Rightarrow> collection" where
  "restore_indexes c ixs =
     foldl (\<lambda>acc ix. if bi_name ix \<noteq> Some ''_id_''
                      then createIndex_tolerant acc (bi_key ix)
                             (case bi_options ix of None \<Rightarrow> JObj [] | Some opts \<Rightarrow> opts)
                      else acc) c ixs"

text \<open>
  An ordered \<^verbatim>\<open>insertMany\<close>: the documents are written one by one, and the first whose
  identifier is taken makes the call throw, the earlier ones staying written.  The flag
  tells whether the call returned.
\<close>

fun insertMany :: "collection \<Rightarrow> document list \<Rightarrow> collection \<times> bool" where
  "insertMany c [] = (c, True)"
| "insertMany c ((i, v) # ds) =
     (if col_docs c i \<noteq> None then (c, False)
      else insertMany (c\<lparr> col_docs := (col_docs c)(i \<mapsto> v) \<rparr>) ds)"

text \<open>The body of the loop for one collection of the backup.  Iterating over
  \<^verbatim>\<open>indexes\<close> throws when the backup has none.\<close>

definition restore_collection ::
    "database \<Rightarrow> string \<Rightarrow> backup_collection \<Rightarrow> database \<times> (error + restore_result)" where
  "restore_collection db name cd =
     (let c0 = deleteMany_all (db name)
      in (case bc_indexes cd of
            None \<Rightarrow> (db(name := c0), Inl StoreError)
          | Some ixs \<Rightarrow>
              (let c1 = restore_indexes c0 ixs;
                   ds = (case bc_data cd of None \<Rightarrow> [] | Some xs \<Rightarrow> xs);
                   res = \<lparr> rr_collection = name, rr_documentsRestored = length ds,
                           rr_indexesRestored = length ixs \<rparr>
               in if ds \<noteq> []
                  then (case insertMany c1 ds of
                          (c2, False) \<Rightarrow> (db(name := c2), Inl StoreError)
                        | (c2, True) \<Rightarrow> (db(name := c2), Inr res))
                  else (db(name := c1), Inr res))))"



section \<open>Properties of the query translator\<close>

text \<open>
  The tests for \<^verbatim>\<open>>\<close> and \<^verbatim>\<open><\<close> stand before those for \<^verbatim>\<open>>=\<close> and \<^verbatim>\<open><=\<close>, and a
  value that starts with \<^verbatim>\<open>>=\<close> starts with \<^verbatim>\<open>>\<close>: no value reaches the two later tests.
\<close>

lemma translate_value_never_gte:
  "translate_value J v \<noteq> Gte x \<and> translate_value J v \<noteq> Lte x"
proof (cases "startsWith v ''>''")
  case True
  then show ?thesis by (simp add: translate_value_def)
next
  case False
  note nogt = this
  show ?thesis
  proof (cases "startsWith v ''<''")
    case True
    with nogt show ?thesis by (simp add: translate_value_def)
  next
    case False
    have "\<not> startsWith v ''>=''" using nogt by (cases v) (auto simp: startsWith_def)
    moreover have "\<not> startsWith v ''<=''" using False by (cases v) (auto simp: startsWith_def)
    ultimately show ?thesis using nogt False by (simp add: translate_value_def)
  qed
qed

text \<open>
  Claim C1.  A filter value that begins with \<^verbatim>\<open>>=\<close> should give a greater-or-equal
  predicate on the number after the prefix, and one that begins with \<^verbatim>\<open><=\<close> a
  less-or-equal predicate.  The translator gives a greater-than (less-than) predicate
  instead, on the number read from the text after the first character, which still
  begins with \<^verbatim>\<open>=\<close>: for \<^verbatim>\<open>>=100\<close> it is \<^verbatim>\<open>$gt\<close> of \<^verbatim>\<open>parseFloat("=100")\<close>.
\<close>

theorem ge_le_prefix_translated_as_gt_lt:
  "translate_value J (''>='' @ v) = Gt (parseFloat J (''='' @ v)) \<and>
   translate_value J (''<='' @ v) = Lt (parseFloat J (''='' @ v)) \<and>
   translate_value J ''>=100'' = Gt (parseFloat J ''=100'') \<and>
   build_query J [(''price'', ''>=100'')] = [(''price'', Gt (parseFloat J ''=100''))]"
  by (simp add: translate_value_def startsWith_def substring_def build_query_def reserved_def)

section \<open>Properties of the route table\<close>

lemma split_no_sep: "c \<notin> set s \<Longrightarrow> split s c = [s]"
  by (induction s) auto

lemma split_append_sep: "c \<notin> set s \<Longrightarrow> split (s @ c # r) c = s # split r c"
  by (induction s) auto

lemma match_two_params:
  "l \<noteq> [] \<Longrightarrow> match_path [Param x, Lit l] ps = Some bs \<Longrightarrow>
   \<exists>bs'. match_path [Param x', Param y'] ps = Some bs'"
  apply (cases ps; simp)
  subgoal for a as
    apply (cases as; simp split: if_splits)
    subgoal for b cs
      apply (cases cs; auto simp: toLowerCase_def split: if_splits)
      done
    done
  done

lemma dispatch_never_stats:
  "dispatch universal_routes m ps \<noteq> Some (CollectionStats, bs)"
proof
  assume a: "dispatch universal_routes m ps = Some (CollectionStats, bs)"
  show False
  proof (cases "match_path [Param ''collection'', Param ''id''] ps")
    case None
    then have "match_path [Param ''collection'', Lit ''stats''] ps = None"
      using match_two_params[of "''stats''" "''collection''" ps _ "''collection''" "''id''"]
      by (cases "match_path [Param ''collection'', Lit ''stats''] ps") auto
    with a show False
      by (cases m) (auto simp: universal_routes_def split: option.splits if_splits)
  next
    case (Some bs')
    with a show False
      by (cases m) (auto simp: universal_routes_def split: option.splits if_splits)
  qed
qed

lemma pieces_collection_stats:
  assumes "CHR ''/'' \<notin> set c"
  shows "pieces_of (''/'' @ c @ ''/stats'') = Some [c, ''stats'']"
proof -
  have "split (''/'' @ c @ ''/stats'') CHR ''/'' = [] # split (c @ CHR ''/'' # ''stats'') CHR ''/''"
    by simp
  also have "split (c @ CHR ''/'' # ''stats'') CHR ''/'' = c # split ''stats'' CHR ''/''"
    using assms by (rule split_append_sep)
  finally show ?thesis by (simp add: pieces_of_def)
qed

lemma route_collection_stats:
  assumes "c \<noteq> []" and "CHR ''/'' \<notin> set c"
  shows "route GET (''/'' @ c @ ''/stats'') =
           Some (GetDocument, [(''collection'', c), (''id'', ''stats'')])"
  using assms(1) pieces_collection_stats[OF assms(2)]
  by (simp add: route_def universal_routes_def toLowerCase_def lower_char_def)

text \<open>
  Claim C10.  The statistics route is unreachable.  No request is dispatched to its
  handler, whatever the method and the path; a GET request for
  \<^verbatim>\<open>/<collection>/stats\<close> is taken by the route \<^verbatim>\<open>/:collection/:id\<close>, registered before,
  with \<^verbatim>\<open>id = "stats"\<close>, which is no document identifier, and is answered with a
  validation error.
\<close>

theorem stats_route_unreachable:
  "(\<forall>m ps bs. dispatch universal_routes m ps \<noteq> Some (CollectionStats, bs)) \<and>
   (\<forall>m path bs. route m path \<noteq> Some (CollectionStats, bs)) \<and>
   (\<forall>cache db path. get_request cache db path \<noteq> Other CollectionStats) \<and>
   (\<forall>cache db c. c \<noteq> [] \<and> CHR ''/'' \<notin> set c \<longrightarrow>
      route GET (''/'' @ c @ ''/stats'') =
        Some (GetDocument, [(''collection'', c), (''id'', ''stats'')]) \<and>
      get_request cache db (''/'' @ c @ ''/stats'') = Answered (Inl ValidationError))"
proof (intro conjI allI impI)
  fix m ps bs
  show "dispatch universal_routes m ps \<noteq> Some (CollectionStats, bs)"
    by (rule dispatch_never_stats)
next
  fix m path bs
  show "route m path \<noteq> Some (CollectionStats, bs)"
    by (simp add: route_def dispatch_never_stats split: option.splits)
next
  fix cache db path
  show "get_request cache db path \<noteq> Other CollectionStats"
    by (auto simp: get_request_def route_def dispatch_never_stats split: option.splits)
next
  fix cache :: model_cache and db :: database and c
  assume c: "c \<noteq> [] \<and> CHR ''/'' \<notin> set c"
  then have r: "route GET (''/'' @ c @ ''/stats'') =
      Some (GetDocument, [(''collection'', c), (''id'', ''stats'')])"
    using route_collection_stats[of c] by blast
  then show "route GET (''/'' @ c @ ''/stats'') =
      Some (GetDocument, [(''collection'', c), (''id'', ''stats'')])" .
  show "get_request cache db (''/'' @ c @ ''/stats'') = Answered (Inl ValidationError)"
    unfolding get_request_def r by (simp add: get_document_def isMongoId_def)
qed

theorem stats_route_unreachable_witness:
  "route GET ''/orders/stats'' = Some (GetDocument, [(''collection'', ''orders''), (''id'', ''stats'')]) \<and>
   get_request Map.empty (\<lambda>n. \<lparr> col_docs = Map.empty, col_indexes = [] \<rparr>) ''/orders/stats''
     = Answered (Inl ValidationError)"
  using stats_route_unreachable [THEN conjunct2, THEN conjunct2, THEN conjunct2, rule_format,
      of "''orders''" Map.empty "\<lambda>n. \<lparr> col_docs = Map.empty, col_indexes = [] \<rparr>"]
  by simp

section \<open>Properties of pagination\<close>









lemma pages_of_bounds:
  assumes "0 < limit"
  shows "int n \<le> pages_of n limit * limit \<and> (pages_of n limit - 1) * limit < int n"
proof -
  let ?x = "rat_of_nat n / rat_of_int limit"
  have l: "0 < rat_of_int limit" using assms by simp
  have "rat_of_nat n \<le> rat_of_int \<lceil>?x\<rceil> * rat_of_int limit"
    using pos_divide_le_eq[OF l, of "rat_of_nat n" "rat_of_int \<lceil>?x\<rceil>"] le_of_int_ceiling[of ?x]
    by blast
  then have "rat_of_int (int n) \<le> rat_of_int (\<lceil>?x\<rceil> * limit)" by simp
  then have a: "int n \<le> \<lceil>?x\<rceil> * limit" by (simp only: of_int_le_iff)
  have "rat_of_int \<lceil>?x\<rceil> - 1 < ?x" using ceiling_correct[of ?x] by linarith
  then have "(rat_of_int \<lceil>?x\<rceil> - 1) * rat_of_int limit < rat_of_nat n"
    using pos_less_divide_eq[OF l, of "rat_of_int \<lceil>?x\<rceil> - 1" "rat_of_nat n"] by blast
  then have "rat_of_int ((\<lceil>?x\<rceil> - 1) * limit) < rat_of_int (int n)" by simp
  then have b: "(\<lceil>?x\<rceil> - 1) * limit < int n" by (simp only: of_int_less_iff)
  from a b show ?thesis by (simp add: pages_of_def)
qed



















section \<open>Properties of the schema registry\<close>

lemma find_Some_set: "find P xs = Some x \<Longrightarrow> x \<in> set xs \<and> P x"
  by (induction xs) (auto split: if_splits)

lemma find_None_iff': "find P xs = None \<longleftrightarrow> (\<forall>x\<in>set xs. \<not> P x)"
  by (induction xs) auto

lemma toLowerCase_idem: "toLowerCase (toLowerCase s) = toLowerCase s"
proof -
  have "lower_char (lower_char c) = lower_char c" for c
    by (simp add: lower_char_def split: option.splits if_splits)
  then show ?thesis by (simp add: toLowerCase_def)
qed

text \<open>
  Claim C3, as the code has it.  \<^verbatim>\<open>POST /schemas\<close> looks the name up with no condition on
  \<^verbatim>\<open>isActive\<close> (and \<^verbatim>\<open>collectionName\<close> carries a unique index): a request that passes
  the validators is answered with a conflict exactly when some definition, active or
  soft-deleted, has the lower-cased and trimmed collection name.
\<close>

theorem create_conflict_iff:
  "create reg b oid now = Inl ConflictError \<longleftrightarrow>
     create_validators b \<and>
     (\<exists>d\<in>set reg. sd_collectionName d = trim (toLowerCase (the (cb_collectionName b))))"
proof -
  let ?n = "toLowerCase (the (cb_collectionName b))"
  have c: "cast_collectionName ?n = trim ?n"
    by (simp add: cast_collectionName_def toLowerCase_idem)
  show ?thesis
  proof (cases "create_validators b")
    case False
    then show ?thesis by (simp add: create_def)
  next
    case True
    show ?thesis
    proof (cases "findOne_collectionName reg ?n")
      case None
      then have "\<forall>d\<in>set reg. sd_collectionName d \<noteq> trim ?n"
        by (simp add: findOne_collectionName_def find_None_iff' c)
      moreover have "create reg b oid now \<noteq> Inl ConflictError"
        using True None by (auto simp: create_def Let_def save_new_def split: sum.splits if_splits)
      ultimately show ?thesis by blast
    next
      case (Some d)
      then have "d \<in> set reg \<and> sd_collectionName d = trim ?n"
        by (auto simp: findOne_collectionName_def c dest: find_Some_set)
      moreover have "create reg b oid now = Inl ConflictError"
        using True Some by (simp add: create_def)
      ultimately show ?thesis using True by blast
    qed
  qed
qed


lemmas registry_eval_defs = create_def create_validators_def notEmpty_def field_types_def
  findOne_collectionName_def cast_collectionName_def toLowerCase_def lower_char_def trim_def
  isWhiteSpace_def new_Schema_def save_new_def valid_def_def valid_field_def cast_field_def
  softDelete_def isMongoId_def isHexDigit_def findById_def castObjectId_def save_existing_def
  getActiveSchemas_def getByCollectionName_def update_def update_validators_def optional_def
  assign_keys_def Let_def

text \<open>
  Claim C3, as stated, fails: a definition is created in an empty registry and
  soft-deleted; no active definition is left for the name, yet creating the name again
  is answered with a conflict.
\<close>

theorem create_after_softDelete_conflicts:
  "create [] \<lparr> cb_collectionName = Some ''orders'', cb_displayName = Some ''Orders'',
               cb_description = None, cb_fields = Some [], cb_indexes = None,
               cb_validationRules = None, cb_isActive = None \<rparr>
     ''0123456789abcdef01234567'' 1000
   = Inr ([\<lparr> sd_id = ''0123456789abcdef01234567'', sd_collectionName = ''orders'',
              sd_displayName = ''Orders'', sd_description = None, sd_fields = [],
              sd_indexes = [], sd_validationRules = None, sd_isActive = True,
              sd_createdAt = 1000, sd_updatedAt = 1000 \<rparr>],
           \<lparr> sd_id = ''0123456789abcdef01234567'', sd_collectionName = ''orders'',
              sd_displayName = ''Orders'', sd_description = None, sd_fields = [],
              sd_indexes = [], sd_validationRules = None, sd_isActive = True,
              sd_createdAt = 1000, sd_updatedAt = 1000 \<rparr>) \<and>
   softDelete [\<lparr> sd_id = ''0123456789abcdef01234567'', sd_collectionName = ''orders'',
              sd_displayName = ''Orders'', sd_description = None, sd_fields = [],
              sd_indexes = [], sd_validationRules = None, sd_isActive = True,
              sd_createdAt = 1000, sd_updatedAt = 1000 \<rparr>]
     ''0123456789abcdef01234567'' 2000
   = Inr [\<lparr> sd_id = ''0123456789abcdef01234567'', sd_collectionName = ''orders'',
              sd_displayName = ''Orders'', sd_description = None, sd_fields = [],
              sd_indexes = [], sd_validationRules = None, sd_isActive = False,
              sd_createdAt = 1000, sd_updatedAt = 2000 \<rparr>] \<and>
   getActiveSchemas [\<lparr> sd_id = ''0123456789abcdef01234567'', sd_collectionName = ''orders'',
              sd_displayName = ''Orders'', sd_description = None, sd_fields = [],
              sd_indexes = [], sd_validationRules = None, sd_isActive = False,
              sd_createdAt = 1000, sd_updatedAt = 2000 \<rparr>] = [] \<and>
   getByCollectionName [\<lparr> sd_id = ''0123456789abcdef01234567'', sd_collectionName = ''orders'',
              sd_displayName = ''Orders'', sd_description = None, sd_fields = [],
              sd_indexes = [], sd_validationRules = None, sd_isActive = False,
              sd_createdAt = 1000, sd_updatedAt = 2000 \<rparr>] ''orders'' = None \<and>
   create [\<lparr> sd_id = ''0123456789abcdef01234567'', sd_collectionName = ''orders'',
              sd_displayName = ''Orders'', sd_description = None, sd_fields = [],
              sd_indexes = [], sd_validationRules = None, sd_isActive = False,
              sd_createdAt = 1000, sd_updatedAt = 2000 \<rparr>]
          \<lparr> cb_collectionName = Some ''orders'', cb_displayName = Some ''Orders'',
               cb_description = None, cb_fields = Some [], cb_indexes = None,
               cb_validationRules = None, cb_isActive = None \<rparr>
     ''0123456789abcdef01234568'' 3000
   = Inl ConflictError"
  by (simp add: registry_eval_defs)

theorem create_conflict_iff_witness:
  "create_validators \<lparr> cb_collectionName = Some ''Orders'', cb_displayName = Some ''Orders'',
               cb_description = None, cb_fields = Some [], cb_indexes = None,
               cb_validationRules = None, cb_isActive = None \<rparr> \<and>
   create [\<lparr> sd_id = ''0123456789abcdef01234567'', sd_collectionName = ''orders'',
              sd_displayName = ''Orders'', sd_description = None, sd_fields = [],
              sd_indexes = [], sd_validationRules = None, sd_isActive = False,
              sd_createdAt = 1000, sd_updatedAt = 2000 \<rparr>]
          \<lparr> cb_collectionName = Some ''Orders'', cb_displayName = Some ''Orders'',
               cb_description = None, cb_fields = Some [], cb_indexes = None,
               cb_validationRules = None, cb_isActive = None \<rparr>
     ''0123456789abcdef01234568'' 3000
   = Inl ConflictError \<and>
   create []
          \<lparr> cb_collectionName = Some ''Orders'', cb_displayName = Some ''Orders'',
               cb_description = None, cb_fields = Some [], cb_indexes = None,
               cb_validationRules = None, cb_isActive = None \<rparr>
     ''0123456789abcdef01234568'' 3000
   \<noteq> Inl ConflictError"
  using create_conflict_iff[of "[\<lparr> sd_id = ''0123456789abcdef01234567'', sd_collectionName = ''orders'',
              sd_displayName = ''Orders'', sd_description = None, sd_fields = [],
              sd_indexes = [], sd_validationRules = None, sd_isActive = False,
              sd_createdAt = 1000, sd_updatedAt = 2000 \<rparr>]"
          "\<lparr> cb_collectionName = Some ''Orders'', cb_displayName = Some ''Orders'',
               cb_description = None, cb_fields = Some [], cb_indexes = None,
               cb_validationRules = None, cb_isActive = None \<rparr>"
          "''0123456789abcdef01234568''" 3000]
   create_conflict_iff[of "[]"
          "\<lparr> cb_collectionName = Some ''Orders'', cb_displayName = Some ''Orders'',
               cb_description = None, cb_fields = Some [], cb_indexes = None,
               cb_validationRules = None, cb_isActive = None \<rparr>"
          "''0123456789abcdef01234568''" 3000]
  by (simp add: create_validators_def notEmpty_def toLowerCase_def lower_char_def trim_def isWhiteSpace_def)



lemma find_replace_by_id:
  "find (\<lambda>x. sd_id x = k) reg = Some d \<Longrightarrow> sd_id d' = k \<Longrightarrow>
   find (\<lambda>x. sd_id x = k) (replace_by_id reg d') = Some d'"
  by (induction reg) (auto split: if_splits)

lemma findById_replace:
  "findById reg i = Some d \<Longrightarrow> sd_id d' = sd_id d \<Longrightarrow> findById (replace_by_id reg d') i = Some d'"
  using find_replace_by_id[of "castObjectId i" reg d d'] find_Some_set[of "\<lambda>x. sd_id x = castObjectId i" reg d]
  by (simp add: findById_def)


lemma find_replace_self:
  "find (\<lambda>x. sd_id x = k) reg = Some d \<Longrightarrow> replace_by_id reg d = reg"
  by (induction reg) (auto split: if_splits dest: find_Some_set)

lemma replace_by_id_self: "findById reg i = Some d \<Longrightarrow> replace_by_id reg d = reg"
  unfolding findById_def by (rule find_replace_self)


lemma set_replace_by_id: "set (replace_by_id reg d) \<subseteq> insert d (set reg)"
  by (induction reg) auto


lemma update_result:
  assumes "update reg i b now = Inr (reg', d')"
  shows "\<exists>d. findById reg i = Some d \<and> d' = (assign_keys d b)\<lparr> sd_updatedAt := now \<rparr> \<and>
             reg' = replace_by_id reg d' \<and> valid_def d' \<and> update_validators i b"
  using assms
  by (auto simp: update_def Let_def save_existing_def split: if_splits option.splits sum.splits)


lemma valid_def_inactive:
  "valid_def (d\<lparr> sd_isActive := a, sd_updatedAt := t \<rparr>) = valid_def d"
  by (simp add: valid_def_def)

text \<open>
  Claim C7.  \<^verbatim>\<open>DELETE /schemas/:id\<close> twice in succession on a stored definition: both calls
  succeed, the definition is inactive after the first, and the second leaves the
  registry as the first left it.
\<close>

theorem softDelete_idempotent:
  assumes "isMongoId i" and "findById reg i = Some d" and "valid_def d"
  shows "\<exists>reg1 d1. softDelete reg i t1 = Inr reg1 \<and>
           findById reg1 i = Some d1 \<and> \<not> sd_isActive d1 \<and>
           softDelete reg1 i t2 = Inr reg1"
proof -
  let ?d1 = "if sd_isActive d then d\<lparr> sd_isActive := False, sd_updatedAt := t1 \<rparr> else d"
  let ?reg1 = "replace_by_id reg ?d1"
  have v: "valid_def ?d1" using assms(3) by (simp add: valid_def_inactive)
  have s1: "softDelete reg i t1 = Inr ?reg1"
    using assms(1,2) v by (simp add: softDelete_def save_existing_def)
  have f1: "findById ?reg1 i = Some ?d1"
    by (rule findById_replace[OF assms(2)]) simp
  have na: "\<not> sd_isActive ?d1" by simp
  have "softDelete ?reg1 i t2 = save_existing ?reg1 ?d1"
    using assms(1) f1 na by (simp add: softDelete_def del: replace_by_id.simps)
  also have "\<dots> = Inr (replace_by_id ?reg1 ?d1)" using v by (simp add: save_existing_def)
  also have "replace_by_id ?reg1 ?d1 = ?reg1" by (rule replace_by_id_self[OF f1])
  finally have s2: "softDelete ?reg1 i t2 = Inr ?reg1" .
  from s1 f1 na s2 show ?thesis by blast
qed



theorem softDelete_idempotent_witness:
  "isMongoId ''0123456789abcdef01234567'' \<and>
   softDelete [\<lparr> sd_id = ''0123456789abcdef01234567'', sd_collectionName = ''orders'',
              sd_displayName = ''Orders'', sd_description = None, sd_fields = [],
              sd_indexes = [], sd_validationRules = None, sd_isActive = True,
              sd_createdAt = 1000, sd_updatedAt = 1000 \<rparr>] ''0123456789abcdef01234567'' 2000
     = Inr [\<lparr> sd_id = ''0123456789abcdef01234567'', sd_collectionName = ''orders'',
              sd_displayName = ''Orders'', sd_description = None, sd_fields = [],
              sd_indexes = [], sd_validationRules = None, sd_isActive = False,
              sd_createdAt = 1000, sd_updatedAt = 2000 \<rparr>] \<and>
   softDelete [\<lparr> sd_id = ''0123456789abcdef01234567'', sd_collectionName = ''orders'',
              sd_displayName = ''Orders'', sd_description = None, sd_fields = [],
              sd_indexes = [], sd_validationRules = None, sd_isActive = False,
              sd_createdAt = 1000, sd_updatedAt = 2000 \<rparr>] ''0123456789abcdef01234567'' 3000
     = Inr [\<lparr> sd_id = ''0123456789abcdef01234567'', sd_collectionName = ''orders'',
              sd_displayName = ''Orders'', sd_description = None, sd_fields = [],
              sd_indexes = [], sd_validationRules = None, sd_isActive = False,
              sd_createdAt = 1000, sd_updatedAt = 2000 \<rparr>]"
proof -
  let ?d = "\<lparr> sd_id = ''0123456789abcdef01234567'', sd_collectionName = ''orders'',
              sd_displayName = ''Orders'', sd_description = None, sd_fields = [],
              sd_indexes = [], sd_validationRules = None, sd_isActive = True,
              sd_createdAt = 1000, sd_updatedAt = 1000 \<rparr>"
  let ?i = "''0123456789abcdef01234567''"
  have h1: "isMongoId ?i" by (simp add: isMongoId_def isHexDigit_def)
  have h2: "findById [?d] ?i = Some ?d"
    by (simp add: findById_def castObjectId_def toLowerCase_def lower_char_def)
  have h3: "valid_def ?d" by (simp add: valid_def_def)
  have s1: "softDelete [?d] ?i 2000 = Inr [?d\<lparr> sd_isActive := False, sd_updatedAt := 2000 \<rparr>]"
    using h1 h2 h3 by (simp add: softDelete_def save_existing_def valid_def_def)
  from softDelete_idempotent[OF h1 h2 h3, of 2000 3000] s1 h1 show ?thesis by auto
qed

lemma create_valid:
  "create reg b oid now = Inr (reg', d) \<Longrightarrow> list_all valid_def reg \<Longrightarrow> list_all valid_def reg'"
  by (auto simp: create_def Let_def save_new_def split: if_splits option.splits sum.splits)

lemma update_valid:
  assumes "update reg i b now = Inr (reg', d)" and "list_all valid_def reg"
  shows "list_all valid_def reg'"
proof -
  from update_result[OF assms(1)] have "reg' = replace_by_id reg d" "valid_def d" by auto
  then show ?thesis using assms(2) set_replace_by_id[of reg d] by (auto simp: list_all_iff)
qed

lemma softDelete_valid:
  assumes "softDelete reg i now = Inr reg'" and "list_all valid_def reg"
  shows "list_all valid_def reg'"
proof -
  from assms(1) obtain d where "reg' = replace_by_id reg d" "valid_def d"
    by (auto simp: softDelete_def save_existing_def split: if_splits option.splits)
  then show ?thesis using assms(2) set_replace_by_id[of reg d] by (auto simp: list_all_iff)
qed

lemma step_valid: "list_all valid_def (sys_registry s) \<Longrightarrow> list_all valid_def (sys_registry (step s r))"
  by (cases r) (auto split: sum.splits dest: create_valid update_valid softDelete_valid)

lemma run_valid: "list_all valid_def (sys_registry s) \<Longrightarrow> list_all valid_def (sys_registry (run s rs))"
  unfolding run_def by (induction rs arbitrary: s) (auto dest: step_valid)

section \<open>Properties of the model caches\<close>

lemma getDynamicModel_hit: "cache name = Some m \<Longrightarrow> getDynamicModel cache name = (m, cache)"
  by (simp add: getDynamicModel_def)

lemma getModelFromSchema_hit:
  "cache name = Some m \<Longrightarrow> getModelFromSchema cache reg name = (m, cache)"
  by (simp add: getModelFromSchema_def)

lemma getDynamicModel_keeps:
  "cache name = Some m \<Longrightarrow> snd (getDynamicModel cache n) name = Some m"
  by (auto simp: getDynamicModel_def Let_def split: option.splits)

lemma getModelFromSchema_keeps:
  "cache name = Some m \<Longrightarrow> snd (getModelFromSchema cache reg n) name = Some m"
  by (auto simp: getModelFromSchema_def Let_def split: option.splits)

lemma step_universalCache:
  "universalCache s name = Some m \<Longrightarrow> universalCache (step s r) name = Some m"
  by (cases r) (auto simp: getDynamicModel_keeps split: sum.splits)

lemma step_collectionsCache:
  "collectionsCache s name = Some m \<Longrightarrow> collectionsCache (step s r) name = Some m"
  by (cases r) (auto simp: getModelFromSchema_keeps split: sum.splits)

lemma run_universalCache:
  "universalCache s name = Some m \<Longrightarrow> universalCache (run s rs) name = Some m"
  unfolding run_def by (induction rs arbitrary: s) (auto dest: step_universalCache)

lemma run_collectionsCache:
  "collectionsCache s name = Some m \<Longrightarrow> collectionsCache (run s rs) name = Some m"
  unfolding run_def by (induction rs arbitrary: s) (auto dest: step_collectionsCache)

text \<open>
  Claim C5.  Once a model is cached for a name, in either cache, it stays cached under
  every sequence of schema requests (create, update, soft delete) and document requests,
  and the lookup for the name returns that model, leaving the cache as it is.
\<close>

theorem cached_model_stable:
  "(universalCache s name = Some m \<longrightarrow>
      universalCache (run s rs) name = Some m \<and>
      getDynamicModel (universalCache (run s rs)) name = (m, universalCache (run s rs))) \<and>
   (collectionsCache s name = Some m \<longrightarrow>
      collectionsCache (run s rs) name = Some m \<and>
      getModelFromSchema (collectionsCache (run s rs)) (sys_registry (run s rs)) name =
        (m, collectionsCache (run s rs)))"
  using run_universalCache[of s name m rs] run_collectionsCache[of s name m rs]
  by (simp add: getDynamicModel_hit getModelFromSchema_hit)

theorem cached_model_stable_witness:
  "universalCache
     \<lparr> sys_registry = [],
       universalCache = [''orders'' \<mapsto> mongoose_model ''orders'' (dynamicSchema ''orders'')],
       collectionsCache = [''orders'' \<mapsto> mongoose_model ''orders'' (dynamicSchema ''orders'')] \<rparr>
     ''orders'' = Some (mongoose_model ''orders'' (dynamicSchema ''orders'')) \<and>
   collectionsCache
     \<lparr> sys_registry = [],
       universalCache = [''orders'' \<mapsto> mongoose_model ''orders'' (dynamicSchema ''orders'')],
       collectionsCache = [''orders'' \<mapsto> mongoose_model ''orders'' (dynamicSchema ''orders'')] \<rparr>
     ''orders'' = Some (mongoose_model ''orders'' (dynamicSchema ''orders'')) \<and>
   fst (getModelFromSchema
     (collectionsCache (run
        \<lparr> sys_registry = [],
          universalCache = [''orders'' \<mapsto> mongoose_model ''orders'' (dynamicSchema ''orders'')],
          collectionsCache = [''orders'' \<mapsto> mongoose_model ''orders'' (dynamicSchema ''orders'')] \<rparr>
        [SchemaCreate \<lparr> cb_collectionName = Some ''orders'', cb_displayName = Some ''Orders'',
               cb_description = None, cb_fields = Some [], cb_indexes = None,
               cb_validationRules = None, cb_isActive = None \<rparr> ''0123456789abcdef01234567'' 1000,
         CollectionDocuments ''orders'',
         SchemaSoftDelete ''0123456789abcdef01234567'' 2000]))
     (sys_registry (run
        \<lparr> sys_registry = [],
          universalCache = [''orders'' \<mapsto> mongoose_model ''orders'' (dynamicSchema ''orders'')],
          collectionsCache = [''orders'' \<mapsto> mongoose_model ''orders'' (dynamicSchema ''orders'')] \<rparr>
        [SchemaCreate \<lparr> cb_collectionName = Some ''orders'', cb_displayName = Some ''Orders'',
               cb_description = None, cb_fields = Some [], cb_indexes = None,
               cb_validationRules = None, cb_isActive = None \<rparr> ''0123456789abcdef01234567'' 1000,
         CollectionDocuments ''orders'',
         SchemaSoftDelete ''0123456789abcdef01234567'' 2000]))
     ''orders'')
   = mongoose_model ''orders'' (dynamicSchema ''orders'') \<and>
   fst (getDynamicModel
     (universalCache (run
        \<lparr> sys_registry = [],
          universalCache = [''orders'' \<mapsto> mongoose_model ''orders'' (dynamicSchema ''orders'')],
          collectionsCache = [''orders'' \<mapsto> mongoose_model ''orders'' (dynamicSchema ''orders'')] \<rparr>
        [SchemaCreate \<lparr> cb_collectionName = Some ''orders'', cb_displayName = Some ''Orders'',
               cb_description = None, cb_fields = Some [], cb_indexes = None,
               cb_validationRules = None, cb_isActive = None \<rparr> ''0123456789abcdef01234567'' 1000,
         CollectionDocuments ''orders'',
         SchemaSoftDelete ''0123456789abcdef01234567'' 2000]))
     ''orders'')
   = mongoose_model ''orders'' (dynamicSchema ''orders'')"
  using cached_model_stable[where s = "\<lparr> sys_registry = [],
          universalCache = [''orders'' \<mapsto> mongoose_model ''orders'' (dynamicSchema ''orders'')],
          collectionsCache = [''orders'' \<mapsto> mongoose_model ''orders'' (dynamicSchema ''orders'')] \<rparr>"
      and name = "''orders''" and m = "mongoose_model ''orders'' (dynamicSchema ''orders'')"
      and rs = "[SchemaCreate \<lparr> cb_collectionName = Some ''orders'', cb_displayName = Some ''Orders'',
               cb_description = None, cb_fields = Some [], cb_indexes = None,
               cb_validationRules = None, cb_isActive = None \<rparr> ''0123456789abcdef01234567'' 1000,
         CollectionDocuments ''orders'',
         SchemaSoftDelete ''0123456789abcdef01234567'' 2000]"]
  by simp





lemma getByCollectionName_none:
  "getByCollectionName reg name = None \<longleftrightarrow>
   (\<forall>d\<in>set reg. \<not> (sd_collectionName d = trim (toLowerCase name) \<and> sd_isActive d))"
  by (simp add: getByCollectionName_def cast_collectionName_def toLowerCase_idem find_None_iff')






section \<open>Properties of the document store\<close>





section \<open>Properties of restore\<close>


lemma insertMany_success:
  "insertMany c ds = (c', True) \<Longrightarrow>
   distinct (map fst ds) \<and> (\<forall>i\<in>set (map fst ds). col_docs c i = None) \<and>
   col_docs c' = col_docs c ++ map_of ds \<and> col_indexes c' = col_indexes c"
proof (induction c ds rule: insertMany.induct)
  case (1 c)
  then show ?case by simp
next
  case (2 c i v ds)
  from "2.prems" have n: "col_docs c i = None" by (simp split: if_splits)
  let ?c1 = "c\<lparr> col_docs := (col_docs c)(i \<mapsto> v) \<rparr>"
  from "2.prems" n have r: "insertMany ?c1 ds = (c', True)" by simp
  have ih0: "distinct (map fst ds) \<and> (\<forall>j\<in>set (map fst ds). col_docs ?c1 j = None) \<and>
      col_docs c' = col_docs ?c1 ++ map_of ds \<and> col_indexes c' = col_indexes ?c1"
    by (rule "2.IH"[OF _ r]) (simp add: n)
  have d: "distinct (map fst ds)" using ih0 by blast
  have ix: "col_indexes c' = col_indexes c" using ih0 by simp
  have nn: "\<forall>j\<in>set (map fst ds). ((col_docs c)(i \<mapsto> v)) j = None" using ih0 by simp
  have ni: "i \<notin> set (map fst ds)"
  proof
    assume "i \<in> set (map fst ds)"
    with nn have "((col_docs c)(i \<mapsto> v)) i = None" by blast
    then show False by simp
  qed
  have old: "\<forall>j\<in>set (map fst ds). col_docs c j = None"
  proof
    fix j assume j: "j \<in> set (map fst ds)"
    with nn have "((col_docs c)(i \<mapsto> v)) j = None" by blast
    moreover have "j \<noteq> i" using j ni by blast
    ultimately show "col_docs c j = None" by simp
  qed
  have docs: "col_docs c' = (col_docs c)(i \<mapsto> v) ++ map_of ds" using ih0 by simp
  have B: "\<forall>j\<in>set (map fst ((i, v) # ds)). col_docs c j = None"
    using old n by simp
  have A: "distinct (map fst ((i, v) # ds))" using d ni by simp
  have C: "col_docs c' = col_docs c ++ map_of ((i, v) # ds)"
  proof
    fix j
    have m: "map_of ds i = None" using ni by (simp add: map_of_eq_None_iff)
    show "col_docs c' j = (col_docs c ++ map_of ((i, v) # ds)) j"
      unfolding docs using m by (cases "j = i") (simp_all add: map_add_def split: option.splits)
  qed
  from A B C ix show ?case by blast
qed

lemma restore_collection_success:
  assumes "restore_collection db n cd = (db', Inr r)"
  shows "\<exists>ixs. bc_indexes cd = Some ixs \<and>
           col_docs (db' n) = map_of (case bc_data cd of None \<Rightarrow> [] | Some xs \<Rightarrow> xs) \<and>
           col_indexes (db' n) = col_indexes (restore_indexes (deleteMany_all (db n)) ixs) \<and>
           r = \<lparr> rr_collection = n,
                 rr_documentsRestored = length (case bc_data cd of None \<Rightarrow> [] | Some xs \<Rightarrow> xs),
                 rr_indexesRestored = length ixs \<rparr>"
proof -
  from assms obtain ixs where ixs: "bc_indexes cd = Some ixs"
    by (auto simp: restore_collection_def Let_def split: option.splits)
  let ?c0 = "deleteMany_all (db n)"
  let ?c1 = "restore_indexes ?c0 ixs"
  let ?ds = "case bc_data cd of None \<Rightarrow> [] | Some xs \<Rightarrow> xs"
  have idx_docs: "col_docs (restore_indexes c xs) = col_docs c" for c xs
    unfolding restore_indexes_def
    by (induction xs arbitrary: c rule: rev_induct)
       (auto simp: createIndex_tolerant_def split: option.splits)
  have c1: "col_docs ?c1 = Map.empty" by (simp add: idx_docs deleteMany_all_def)
  show ?thesis
  proof (cases "?ds = []")
    case True
    then show ?thesis using assms ixs c1
      by (auto simp: restore_collection_def Let_def)
  next
    case False
    then obtain c2 where i: "insertMany ?c1 ?ds = (c2, True)" and db': "db' = db(n := c2)"
      and r: "r = \<lparr> rr_collection = n, rr_documentsRestored = length ?ds, rr_indexesRestored = length ixs \<rparr>"
      using assms ixs
      by (auto simp: restore_collection_def Let_def split: prod.splits bool.splits)
    from insertMany_success[OF i] c1 have "col_docs c2 = map_of ?ds" "col_indexes c2 = col_indexes ?c1"
      by auto
    then show ?thesis using ixs db' r by simp
  qed
qed







end
